theory Spec2Isabelle
  imports Complex_Main
begin

section \<open>JavaScript numbers\<close>

text \<open>
  Every score, amount and feature of the engine is a JavaScript number. The finite values
  are modelled exactly, as rationals (binary rounding and the sign of zero are left out);
  the three special values are kept, because the code divides by lengths and by averages
  that can be zero, and \<open>0 / 0\<close> is \<open>NaN\<close> there, not an error.
\<close>

datatype jsnum = Num rat | PosInf | NegInf | NaN

fun js_neg :: "jsnum \<Rightarrow> jsnum" where
  "js_neg (Num a) = Num (- a)"
| "js_neg PosInf = NegInf"
| "js_neg NegInf = PosInf"
| "js_neg NaN = NaN"

fun js_add :: "jsnum \<Rightarrow> jsnum \<Rightarrow> jsnum" where
  "js_add NaN y = NaN"
| "js_add x NaN = NaN"
| "js_add (Num a) (Num b) = Num (a + b)"
| "js_add PosInf NegInf = NaN"
| "js_add NegInf PosInf = NaN"
| "js_add PosInf y = PosInf"
| "js_add NegInf y = NegInf"
| "js_add (Num a) y = y"

definition js_sub :: "jsnum \<Rightarrow> jsnum \<Rightarrow> jsnum" where
  "js_sub x y = js_add x (js_neg y)"

text \<open>The sign of a number that is not \<open>NaN\<close>: \<open>-1\<close>, \<open>0\<close> or \<open>1\<close>.\<close>

fun js_sign :: "jsnum \<Rightarrow> int" where
  "js_sign (Num a) = (if a < 0 then - 1 else if a = 0 then 0 else 1)"
| "js_sign PosInf = 1"
| "js_sign NegInf = - 1"
| "js_sign NaN = 0"

definition signed_inf :: "int \<Rightarrow> jsnum" where
  "signed_inf s = (if s = 0 then NaN else if 0 < s then PosInf else NegInf)"

fun js_mul :: "jsnum \<Rightarrow> jsnum \<Rightarrow> jsnum" where
  "js_mul NaN y = NaN"
| "js_mul x NaN = NaN"
| "js_mul (Num a) (Num b) = Num (a * b)"
| "js_mul x y = signed_inf (js_sign x * js_sign y)"

text \<open>
  Division: a finite number over zero is an infinity of its sign, zero over zero is
  \<open>NaN\<close>, a finite number over an infinity is zero, an infinity over an infinity is
  \<open>NaN\<close>. Every zero is taken as \<open>+0\<close>.
\<close>

fun js_div :: "jsnum \<Rightarrow> jsnum \<Rightarrow> jsnum" where
  "js_div NaN y = NaN"
| "js_div x NaN = NaN"
| "js_div (Num a) (Num b) = (if b = 0 then signed_inf (js_sign (Num a)) else Num (a / b))"
| "js_div (Num a) y = Num 0"
| "js_div x (Num b) = signed_inf (js_sign x * (if b < 0 then - 1 else 1))"
| "js_div x y = NaN"

text \<open>The comparison \<open>x > y\<close>: false as soon as one side is \<open>NaN\<close>.\<close>

fun js_gt :: "jsnum \<Rightarrow> jsnum \<Rightarrow> bool" where
  "js_gt NaN y = False"
| "js_gt x NaN = False"
| "js_gt (Num a) (Num b) = (b < a)"
| "js_gt PosInf y = (y \<noteq> PosInf)"
| "js_gt x NegInf = (x \<noteq> NegInf)"
| "js_gt x y = False"

text \<open>\<open>Math.min\<close> of two numbers: \<open>NaN\<close> as soon as one of them is.\<close>

fun Math_min :: "jsnum \<Rightarrow> jsnum \<Rightarrow> jsnum" where
  "Math_min NaN y = NaN"
| "Math_min x NaN = NaN"
| "Math_min x y = (if js_gt x y then y else x)"

text \<open>\<open>Math.round\<close>: the nearest integer, a half going up; the special values stay.\<close>

fun Math_round :: "jsnum \<Rightarrow> jsnum" where
  "Math_round (Num a) = Num (of_int \<lfloor>a + 1 / 2\<rfloor>)"
| "Math_round x = x"

text \<open>Truthiness of a number, and \<open>x || y\<close> on numbers: zero and \<open>NaN\<close> are falsy.\<close>

fun js_truthy :: "jsnum \<Rightarrow> bool" where
  "js_truthy (Num a) = (a \<noteq> 0)"
| "js_truthy NaN = False"
| "js_truthy x = True"

definition js_or :: "jsnum \<Rightarrow> jsnum \<Rightarrow> jsnum" where
  "js_or x y = (if js_truthy x then x else y)"

fun is_finite :: "jsnum \<Rightarrow> bool" where
  "is_finite (Num a) = True"
| "is_finite x = False"

text \<open>An integer of the interval from 0 to 100, as a JavaScript number.\<close>

definition is_score :: "jsnum \<Rightarrow> bool" where
  "is_score x = (case x of Num a \<Rightarrow> a = of_int \<lfloor>a\<rfloor> \<and> 0 \<le> a \<and> a \<le> 100 | _ \<Rightarrow> False)"

definition js_sum :: "jsnum list \<Rightarrow> jsnum" where
  "js_sum xs = foldl js_add (Num 0) xs"

section \<open>Transactions\<close>

text \<open>
  The row of the \<open>transactions\<close> table, with the fields the engine reads. The amount is
  the decimal of the column, so \<open>parseFloat(t.amount.toString())\<close> is that number; the
  date is held as its \<open>getTime()\<close>, in milliseconds since the epoch.
\<close>

record Transaction =
  tx_id :: int
  accountId :: int
  amount :: rat
  merchant :: string
  category :: string
  transactionDate :: int
  isFlagged :: bool

datatype js_error = Error string | TypeError string

text \<open>\<open>Math.abs(parseFloat(t.amount.toString()))\<close>\<close>

definition absAmount :: "Transaction \<Rightarrow> jsnum" where
  "absAmount t = Num \<bar>amount t\<bar>"

text \<open>
  \<open>getHours()\<close> and \<open>getDay()\<close> read the local time; the local zone is taken to be UTC.
  Day 0 of the epoch was a Thursday (\<open>getDay() = 4\<close>).
\<close>

definition getHours :: "int \<Rightarrow> int" where
  "getHours ms = (ms div 3600000) mod 24"

definition getDay :: "int \<Rightarrow> int" where
  "getDay ms = (ms div 86400000 + 4) mod 7"

definition js_length :: "'a list \<Rightarrow> jsnum" where
  "js_length xs = Num (of_nat (length xs))"

section \<open>Feature extraction\<close>

record Features =
  hour :: jsnum
  isWeekend :: jsnum
  amount_feat :: jsnum
  amountVsMerchantAvg :: jsnum
  amountVsCategoryAvg :: jsnum
  transactionVelocity24h :: jsnum
  totalAmount24h :: jsnum
  merchantFrequency :: jsnum
  categoryFrequency :: jsnum

text \<open>The mean of the absolute amounts of a filtered history, 0 when it is empty.\<close>

definition avgAmount :: "Transaction list \<Rightarrow> jsnum" where
  "avgAmount ts =
     (if 0 < length ts then js_div (js_sum (map absAmount ts)) (js_length ts) else Num 0)"

definition extractTransactionFeatures :: "Transaction \<Rightarrow> Transaction list \<Rightarrow> Features" where
  "extractTransactionFeatures transaction historicalTransactions =
     (let hour = getHours (transactionDate transaction);
          dayOfWeek = getDay (transactionDate transaction);
          isWeekend = (dayOfWeek = 0 \<or> dayOfWeek = 6);
          amount = absAmount transaction;
          merchantTransactions =
            filter (\<lambda>t. merchant t = merchant transaction) historicalTransactions;
          merchantAvgAmount = avgAmount merchantTransactions;
          categoryTransactions =
            filter (\<lambda>t. category t = category transaction) historicalTransactions;
          categoryAvgAmount = avgAmount categoryTransactions;
          last24Hours =
            filter (\<lambda>t. transactionDate transaction - transactionDate t \<le> 24 * 60 * 60 * 1000)
              historicalTransactions
      in \<lparr> hour = Num (of_int hour),
           isWeekend = (if isWeekend then Num 1 else Num 0),
           amount_feat = amount,
           amountVsMerchantAvg = js_div amount (js_or merchantAvgAmount amount),
           amountVsCategoryAvg = js_div amount (js_or categoryAvgAmount amount),
           transactionVelocity24h = js_length last24Hours,
           totalAmount24h = js_sum (map absAmount last24Hours),
           merchantFrequency =
             js_div (js_length merchantTransactions) (js_length historicalTransactions),
           categoryFrequency =
             js_div (js_length categoryTransactions) (js_length historicalTransactions) \<rparr>)"

text \<open>\<open>Object.values\<close> of the feature object, in the order of its keys.\<close>

definition Object_values :: "Features \<Rightarrow> jsnum list" where
  "Object_values f =
     [hour f, isWeekend f, amount_feat f, amountVsMerchantAvg f, amountVsCategoryAvg f,
      transactionVelocity24h f, totalAmount24h f, merchantFrequency f, categoryFrequency f]"

section \<open>Anomaly detector (autoencoder)\<close>

text \<open>
  The autoencoder is built, compiled and fitted by the tensor library. A fitted model is
  kept as the function \<open>model.predict\<close> computes on one row of a batch; the fitting itself
  (\<open>tf.model\<close>, \<open>compile\<close>, \<open>fit\<close>) is a parameter \<open>fit\<close> of the training, from the
  feature matrix to the fitted model, and nothing is assumed about it.
\<close>

type_synonym tf_model = "jsnum list \<Rightarrow> jsnum list"

record AnomalyDetector =
  model :: "tf_model option"
  threshold :: jsnum

definition new_AnomalyDetector :: AnomalyDetector where
  "new_AnomalyDetector = \<lparr> model = None, threshold = Num (1 / 2) \<rparr>"

text \<open>
  \<open>tf.losses.meanSquaredError(xs, predictions)\<close> with its default reduction: the sum of
  the squared differences of all entries over their number, one scalar. The library
  gives \<open>predictions\<close> the shape of \<open>xs\<close>; an entry that a shorter row would lack is
  never read there and is \<open>NaN\<close> here.
\<close>

fun squaredDifference :: "jsnum list \<Rightarrow> jsnum list \<Rightarrow> jsnum list" where
  "squaredDifference [] ps = []"
| "squaredDifference (x # xs) ps =
     (let d = js_sub x (case ps of [] \<Rightarrow> NaN | p # _ \<Rightarrow> p) in js_mul d d)
       # squaredDifference xs (tl ps)"

definition meanSquaredError :: "jsnum list list \<Rightarrow> jsnum list list \<Rightarrow> jsnum" where
  "meanSquaredError xs predictions =
     (let losses = concat (map (\<lambda>(x, p). squaredDifference x p) (zip xs predictions))
      in js_div (js_sum losses) (js_length losses))"

text \<open>
  \<open>train\<close>: \<open>featureMatrix[0].length\<close> is read before anything is assigned, so an empty
  list ends in a \<open>TypeError\<close> with the detector as it was. The loss \<open>errors\<close> is a
  scalar, so \<open>errorData\<close> has one entry, sorting it changes nothing, and the index
  \<open>Math.floor(errorData.length * 0.1)\<close> is 0.
\<close>

definition strictlyEarlier :: "Transaction list \<Rightarrow> Transaction \<Rightarrow> Transaction list" where
  "strictlyEarlier transactions t =
     filter (\<lambda>ht. transactionDate ht < transactionDate t) transactions"

text \<open>The first lines of \<open>train\<close>, the same in both variants of the detector.\<close>

definition featureMatrix :: "Transaction list \<Rightarrow> jsnum list list" where
  "featureMatrix transactions =
     (let features =
            map (\<lambda>t. extractTransactionFeatures t (strictlyEarlier transactions t)) transactions
      in map Object_values features)"

definition AnomalyDetector_train ::
  "(jsnum list list \<Rightarrow> tf_model) \<Rightarrow> Transaction list \<Rightarrow> AnomalyDetector
     \<Rightarrow> (js_error + unit) \<times> AnomalyDetector" where
  "AnomalyDetector_train fit transactions d =
     (case featureMatrix transactions of
        [] \<Rightarrow> (Inl (TypeError ''Cannot read properties of undefined''), d)
      | row # _ \<Rightarrow>
          (let m = fit (featureMatrix transactions);
               xs = featureMatrix transactions;
               predictions = map m xs;
               errorData = [meanSquaredError xs predictions];
               i = nat \<lfloor>(of_nat (length errorData) :: rat) * (1 / 10)\<rfloor>
           in (Inr (), \<lparr> model = Some m, threshold = errorData ! i \<rparr>)))"

record DetectResult =
  score :: jsnum
  isAnomaly_d :: bool
  features_d :: Features

definition detectAnomaly ::
  "AnomalyDetector \<Rightarrow> Transaction \<Rightarrow> Transaction list \<Rightarrow> js_error + DetectResult" where
  "detectAnomaly d transaction historicalTransactions =
     (case model d of
        None \<Rightarrow> Inl (Error ''Model not trained'')
      | Some m \<Rightarrow>
          (let features = extractTransactionFeatures transaction historicalTransactions;
               featureVector = Object_values features;
               xs = [featureVector];
               prediction = map m xs;
               errorValue = meanSquaredError xs prediction;
               score = Math_min
                 (Math_round (js_mul (js_div errorValue (threshold d)) (Num 100))) (Num 100)
           in Inr \<lparr> score = score, isAnomaly_d = js_gt score (Num 70),
                     features_d = features \<rparr>))"

section \<open>Anomaly detector (isolation forest variant)\<close>

text \<open>
  The second variant of the detector keeps an isolation forest of the library; a fitted
  forest is the function that gives \<open>prediction[0]\<close> for one feature vector, and
  \<open>createIsolationForest\<close> followed by \<open>fit\<close> is the parameter \<open>fit\<close>.
\<close>

type_synonym iforest = "jsnum list \<Rightarrow> jsnum"

record IsolationDetector =
  model_if :: "iforest option"

definition new_IsolationDetector :: IsolationDetector where
  "new_IsolationDetector = \<lparr> model_if = None \<rparr>"

definition IsolationDetector_train ::
  "(jsnum list list \<Rightarrow> iforest) \<Rightarrow> Transaction list \<Rightarrow> IsolationDetector
     \<Rightarrow> IsolationDetector" where
  "IsolationDetector_train fit transactions d =
     d\<lparr> model_if := Some (fit (featureMatrix transactions)) \<rparr>"

definition IsolationDetector_detectAnomaly ::
  "IsolationDetector \<Rightarrow> Transaction \<Rightarrow> Transaction list \<Rightarrow> js_error + DetectResult" where
  "IsolationDetector_detectAnomaly d transaction historicalTransactions =
     (case model_if d of
        None \<Rightarrow> Inl (Error ''Model not trained'')
      | Some m \<Rightarrow>
          (let features = extractTransactionFeatures transaction historicalTransactions;
               featureVector = Object_values features;
               prediction = m featureVector;
               score = Math_round
                 (js_mul (js_div (js_sub (Num 1) prediction) (Num 2)) (Num 100))
           in Inr \<lparr> score = score, isAnomaly_d = js_gt score (Num 70),
                     features_d = features \<rparr>))"

section \<open>Behavioral profiler\<close>

record Profile =
  typicalDayHours :: "int set"
  typicalMerchants :: "string set"
  typicalCategories :: "string set"
  averageAmount :: jsnum
  transactionFrequency :: jsnum

text \<open>The map \<open>userProfiles\<close> is the whole state of the profiler.\<close>

type_synonym BehavioralProfiler = "int \<rightharpoonup> Profile"

text \<open>
  \<open>updateProfile\<close> reads \<open>transactions[transactions.length - 1].transactionDate\<close> before
  it stores the profile: on an empty list that is a \<open>TypeError\<close>, and nothing is stored.
\<close>

definition updateProfile ::
  "BehavioralProfiler \<Rightarrow> int \<Rightarrow> Transaction list \<Rightarrow> (js_error + unit) \<times> BehavioralProfiler" where
  "updateProfile userProfiles userId transactions =
     (let totalAmount = js_sum (map absAmount transactions);
          average = js_div totalAmount (js_length transactions)
      in case transactions of
           [] \<Rightarrow> (Inl (TypeError ''Cannot read properties of undefined''), userProfiles)
         | first # _ \<Rightarrow>
             (let daysDiff =
                    Num (of_int (transactionDate (last transactions) - transactionDate first)
                           / (1000 * 60 * 60 * 24));
                  profile =
                    \<lparr> typicalDayHours = set (map (\<lambda>t. getHours (transactionDate t)) transactions),
                      typicalMerchants = set (map merchant transactions),
                      typicalCategories = set (map category transactions),
                      averageAmount = average,
                      transactionFrequency =
                        js_div (js_length transactions) (js_or daysDiff (Num 1)) \<rparr>
              in (Inr (), userProfiles(userId \<mapsto> profile))))"

definition BehavioralProfiler_analyzeTransaction ::
  "BehavioralProfiler \<Rightarrow> int \<Rightarrow> Transaction \<Rightarrow> jsnum" where
  "BehavioralProfiler_analyzeTransaction userProfiles userId transaction =
     (case userProfiles userId of
        None \<Rightarrow> Num 0
      | Some profile \<Rightarrow>
          (let riskScore0 = Num 0;
               hour = getHours (transactionDate transaction);
               amount = absAmount transaction;
               riskScore1 = (if hour \<notin> typicalDayHours profile
                             then js_add riskScore0 (Num 20) else riskScore0);
               riskScore2 = (if merchant transaction \<notin> typicalMerchants profile
                             then js_add riskScore1 (Num 15) else riskScore1);
               riskScore3 = (if category transaction \<notin> typicalCategories profile
                             then js_add riskScore2 (Num 10) else riskScore2);
               riskScore4 = (if js_gt amount (js_mul (averageAmount profile) (Num 2))
                             then js_add riskScore3 (Num 25) else riskScore3)
           in Math_min riskScore4 (Num 100)))"

section \<open>Random forest classifier\<close>

text \<open>
  The forest is built, trained and queried by the library on the enhanced feature vectors,
  which no score reads. A forest object is kept as what its \<open>predict\<close> does for a
  transaction and its history: the boolean \<open>this.model.predict([features])[0]\<close>, or the
  error it throws. The parameter \<open>rf\<close> stands for \<open>new MLRandomForest(...)\<close> followed by
  \<open>train(features, labels)\<close> on the enhanced features of each transaction against its
  strictly earlier part of the list: it gives the outcome of the training, which may be an
  error (the rows hold two booleans and may hold \<open>Infinity\<close>), and the forest object as
  the training leaves it. Nothing is assumed about it. This is the classifier whose model
  starts as \<open>null\<close>; the repository also holds a variant on a neural network that is
  built in the constructor, which therefore always has a model.
\<close>

type_synonym forest = "Transaction \<Rightarrow> Transaction list \<Rightarrow> js_error + bool"

type_synonym forest_training = "Transaction list \<Rightarrow> bool list \<Rightarrow> (js_error + unit) \<times> forest"

record RandomForestClassifier =
  model_rf :: "forest option"
  userId_rf :: int

definition new_RandomForestClassifier :: "int \<Rightarrow> RandomForestClassifier" where
  "new_RandomForestClassifier userId = \<lparr> model_rf = None, userId_rf = userId \<rparr>"

text \<open>
  \<open>train\<close> assigns \<open>this.model\<close> before it calls the training of the library: when that
  throws, the classifier keeps the forest object and the error goes to the caller.
\<close>

definition RandomForestClassifier_train ::
  "forest_training \<Rightarrow> Transaction list \<Rightarrow> bool list \<Rightarrow> RandomForestClassifier
     \<Rightarrow> (js_error + unit) \<times> RandomForestClassifier" where
  "RandomForestClassifier_train rf transactions labels c =
     (if length transactions = 0 then (Inr (), c)
      else (case rf transactions labels of
              (outcome, m) \<Rightarrow> (outcome, c\<lparr> model_rf := Some m \<rparr>)))"

definition RandomForestClassifier_predict ::
  "RandomForestClassifier \<Rightarrow> Transaction \<Rightarrow> Transaction list \<Rightarrow> js_error + jsnum" where
  "RandomForestClassifier_predict c transaction historicalTransactions =
     (case model_rf c of
        None \<Rightarrow> Inr (Num 0)
      | Some m \<Rightarrow>
          (case m transaction historicalTransactions of
             Inl e \<Rightarrow> Inl e
           | Inr prediction \<Rightarrow> Inr (if prediction then Num 100 else Num 0)))"

definition RandomForestClassifier_updateModel ::
  "forest_training \<Rightarrow> Transaction \<Rightarrow> bool \<Rightarrow> Transaction list
     \<Rightarrow> RandomForestClassifier \<Rightarrow> (js_error + unit) \<times> RandomForestClassifier" where
  "RandomForestClassifier_updateModel rf transaction isActuallyFraud historicalTransactions c =
     (let allTransactions = historicalTransactions @ [transaction];
          allLabels = map isFlagged historicalTransactions @ [isActuallyFraud]
      in RandomForestClassifier_train rf allTransactions allLabels c)"

section \<open>Fraud detection service\<close>

record FraudDetectionService =
  anomalyDetector :: AnomalyDetector
  behavioralProfiler :: BehavioralProfiler
  userClassifiers :: "int \<rightharpoonup> RandomForestClassifier"

definition new_FraudDetectionService :: FraudDetectionService where
  "new_FraudDetectionService =
     \<lparr> anomalyDetector = new_AnomalyDetector, behavioralProfiler = Map.empty,
       userClassifiers = Map.empty \<rparr>"

record Assessment =
  suspiciousScore :: jsnum
  isAnomaly :: bool
  anomalyScore :: jsnum
  behavioralScore :: jsnum
  classifierScore :: jsnum
  features :: Features

text \<open>The weighted average of lines 245 to 249, and the object returned in lines 251 to 258.\<close>

definition combinedScore :: "jsnum \<Rightarrow> jsnum \<Rightarrow> jsnum \<Rightarrow> jsnum" where
  "combinedScore anomaly behavioral classifier =
     Math_round
       (js_add (js_add (js_mul anomaly (Num (4 / 10))) (js_mul behavioral (Num (3 / 10))))
          (js_mul classifier (Num (3 / 10))))"

definition assessment :: "DetectResult \<Rightarrow> jsnum \<Rightarrow> jsnum \<Rightarrow> Assessment" where
  "assessment anomalyResult behavioral classifier =
     (let combined = combinedScore (score anomalyResult) behavioral classifier
      in \<lparr> suspiciousScore = combined,
           isAnomaly = js_gt combined (Num 70),
           anomalyScore = score anomalyResult,
           behavioralScore = behavioral,
           classifierScore = classifier,
           features = features_d anomalyResult \<rparr>)"

text \<open>
  \<open>analyzeTransaction\<close> returns the assessment, or the error thrown by the detector, by
  the training or by the prediction of the classifier, and the service after the call. A
  holder without a classifier gets one, trained on the given history; it is stored only
  when its training has returned, and before it predicts.
\<close>

definition analyzeTransaction ::
  "forest_training \<Rightarrow> FraudDetectionService \<Rightarrow> Transaction \<Rightarrow> int
     \<Rightarrow> Transaction list \<Rightarrow> (js_error + Assessment) \<times> FraudDetectionService" where
  "analyzeTransaction rf s transaction userId historicalTransactions =
     (case detectAnomaly (anomalyDetector s) transaction historicalTransactions of
        Inl e \<Rightarrow> (Inl e, s)
      | Inr anomalyResult \<Rightarrow>
          (let behavioral =
                 BehavioralProfiler_analyzeTransaction (behavioralProfiler s) userId transaction
           in case userClassifiers s userId of
                Some c \<Rightarrow>
                  (case RandomForestClassifier_predict c transaction historicalTransactions of
                     Inl e \<Rightarrow> (Inl e, s)
                   | Inr classifier \<Rightarrow> (Inr (assessment anomalyResult behavioral classifier), s))
              | None \<Rightarrow>
                  (case RandomForestClassifier_train rf historicalTransactions
                          (map isFlagged historicalTransactions)
                          (new_RandomForestClassifier userId) of
                     (Inl e, c) \<Rightarrow> (Inl e, s)
                   | (Inr u, c) \<Rightarrow>
                       (let s' = s\<lparr> userClassifiers := (userClassifiers s)(userId \<mapsto> c) \<rparr>
                        in case RandomForestClassifier_predict c transaction
                                  historicalTransactions of
                             Inl e \<Rightarrow> (Inl e, s')
                           | Inr classifier \<Rightarrow>
                               (Inr (assessment anomalyResult behavioral classifier), s')))))"

text \<open>
  \<open>updateModels\<close>: the classifier of the holder is the object held in the map, so what
  \<open>updateModel\<close> leaves of it is in the map also when its training throws.
\<close>

definition updateModels ::
  "forest_training \<Rightarrow> FraudDetectionService \<Rightarrow> Transaction \<Rightarrow> int
     \<Rightarrow> bool \<Rightarrow> Transaction list \<Rightarrow> (js_error + unit) \<times> FraudDetectionService" where
  "updateModels rf s transaction userId isActuallyFraud historicalTransactions =
     (case updateProfile (behavioralProfiler s) userId (historicalTransactions @ [transaction]) of
        (Inl e, profiles) \<Rightarrow> (Inl e, s\<lparr> behavioralProfiler := profiles \<rparr>)
      | (Inr u, profiles) \<Rightarrow>
          (let s1 = s\<lparr> behavioralProfiler := profiles \<rparr>
           in case userClassifiers s1 userId of
                Some c \<Rightarrow>
                  (case RandomForestClassifier_updateModel rf transaction isActuallyFraud
                          historicalTransactions c of
                     (outcome, c') \<Rightarrow>
                       (outcome,
                        s1\<lparr> userClassifiers := (userClassifiers s1)(userId \<mapsto> c') \<rparr>))
              | None \<Rightarrow> (Inr (), s1)))"

text \<open>
  \<open>initialize\<close>: the detector is trained on the whole corpus, the transactions are grouped
  by account in the order of their first occurrence, and every group gets a profile and a
  freshly trained classifier. A training that throws ends the loop, after the profile of
  its group is stored and before its classifier is.
\<close>

fun groupByAccount ::
  "(int \<times> Transaction list) list \<Rightarrow> Transaction list \<Rightarrow> (int \<times> Transaction list) list" where
  "groupByAccount groups [] = groups"
| "groupByAccount groups (t # ts) =
     groupByAccount
       (if accountId t \<in> fst ` set groups
        then map (\<lambda>(k, g). if k = accountId t then (k, g @ [t]) else (k, g)) groups
        else groups @ [(accountId t, [t])]) ts"

fun initializeUsers ::
  "forest_training \<Rightarrow> (int \<times> Transaction list) list
     \<Rightarrow> FraudDetectionService \<Rightarrow> (js_error + unit) \<times> FraudDetectionService" where
  "initializeUsers rf [] s = (Inr (), s)"
| "initializeUsers rf ((userId, transactions) # rest) s =
     (case updateProfile (behavioralProfiler s) userId transactions of
        (Inl e, profiles) \<Rightarrow> (Inl e, s\<lparr> behavioralProfiler := profiles \<rparr>)
      | (Inr u, profiles) \<Rightarrow>
          (case RandomForestClassifier_train rf transactions
                  (map isFlagged transactions) (new_RandomForestClassifier userId) of
             (Inl e, classifier) \<Rightarrow> (Inl e, s\<lparr> behavioralProfiler := profiles \<rparr>)
           | (Inr v, classifier) \<Rightarrow>
               initializeUsers rf rest
                 (s\<lparr> behavioralProfiler := profiles,
                     userClassifiers := (userClassifiers s)(userId \<mapsto> classifier) \<rparr>)))"

definition initialize ::
  "(jsnum list list \<Rightarrow> tf_model) \<Rightarrow> forest_training
     \<Rightarrow> FraudDetectionService \<Rightarrow> Transaction list
     \<Rightarrow> (js_error + unit) \<times> FraudDetectionService" where
  "initialize fit rf s historicalTransactions =
     (case AnomalyDetector_train fit historicalTransactions (anomalyDetector s) of
        (Inl e, d) \<Rightarrow> (Inl e, s\<lparr> anomalyDetector := d \<rparr>)
      | (Inr u, d) \<Rightarrow>
          initializeUsers rf (groupByAccount [] historicalTransactions)
            (s\<lparr> anomalyDetector := d \<rparr>))"

section \<open>A worked scenario\<close>

text \<open>
  A holder (account 1) with ten grocery purchases averaging 50, one a day at ten o'clock,
  none flagged; a purchase of 450 at a new merchant, in the new category Technology, at
  three in the morning; and one purchase of a second holder (account 2).

  The library is stood in for by the simplest trainings: an autoencoder that reproduces its
  input; a forest training that returns and votes with the majority of its labels; and a
  forest training that rejects its rows, as a library that accepts only numbers does with
  the booleans of the enhanced features, and leaves a forest that cannot predict.
\<close>

definition groceryPurchase :: "int \<Rightarrow> rat \<Rightarrow> Transaction" where
  "groceryPurchase k a =
     \<lparr> tx_id = k, accountId = 1, amount = a, merchant = ''Corner Grocer'',
       category = ''Groceries'', transactionDate = k * 86400000 + 36000000,
       isFlagged = False \<rparr>"

definition groceryHistory :: "Transaction list" where
  "groceryHistory =
     [groceryPurchase 0 45, groceryPurchase 1 55, groceryPurchase 2 50, groceryPurchase 3 50,
      groceryPurchase 4 40, groceryPurchase 5 60, groceryPurchase 6 50, groceryPurchase 7 50,
      groceryPurchase 8 48, groceryPurchase 9 52]"

definition technologyPurchase :: Transaction where
  "technologyPurchase =
     \<lparr> tx_id = 10, accountId = 1, amount = 450, merchant = ''Gadget Hub'',
       category = ''Technology'', transactionDate = 10 * 86400000 + 3 * 3600000,
       isFlagged = False \<rparr>"

definition pharmacyPurchase :: Transaction where
  "pharmacyPurchase =
     \<lparr> tx_id = 11, accountId = 2, amount = 20, merchant = ''High Street Pharmacy'',
       category = ''Health'', transactionDate = 5 * 86400000 + 15 * 3600000,
       isFlagged = False \<rparr>"

definition echo_fit :: "jsnum list list \<Rightarrow> tf_model" where
  "echo_fit matrix = (\<lambda>row. row)"

definition neverFraud :: forest where
  "neverFraud = (\<lambda>t h. Inr False)"

definition alwaysFraud :: forest where
  "alwaysFraud = (\<lambda>t h. Inr True)"

definition majority_rf :: forest_training where
  "majority_rf transactions labels =
     (Inr (), if length labels < 2 * length (filter (\<lambda>l. l) labels)
              then alwaysFraud else neverFraud)"

definition unusableForest :: forest where
  "unusableForest = (\<lambda>t h. Inl (TypeError ''Input data contains non-numeric values''))"

definition rejecting_rf :: forest_training where
  "rejecting_rf transactions labels =
     (Inl (TypeError ''Input data contains non-numeric values''), unusableForest)"

definition groceryProfile :: Profile where
  "groceryProfile =
     \<lparr> typicalDayHours = {10}, typicalMerchants = {''Corner Grocer''},
       typicalCategories = {''Groceries''}, averageAmount = Num 50,
       transactionFrequency = Num (10 / 9) \<rparr>"

definition pharmacyProfile :: Profile where
  "pharmacyProfile =
     \<lparr> typicalDayHours = {15}, typicalMerchants = {''High Street Pharmacy''},
       typicalCategories = {''Health''}, averageAmount = Num 20,
       transactionFrequency = Num 1 \<rparr>"

definition bootstrappedService :: FraudDetectionService where
  "bootstrappedService =
     snd (initialize echo_fit majority_rf new_FraudDetectionService
            (groceryHistory @ [pharmacyPurchase]))"

definition rejectedService :: FraudDetectionService where
  "rejectedService =
     snd (initialize echo_fit rejecting_rf new_FraudDetectionService
            (groceryHistory @ [pharmacyPurchase]))"

text \<open>
  A service whose scores are numbers: its detector holds a model that is off by 2 in the
  first feature and the threshold 0.5 of the constructor, and holder 1 has the profile of
  the ten grocery purchases. No training leaves such a detector, since a training stores
  the threshold \<open>NaN\<close>; the service is there to run the fusion on numbers.
\<close>

definition offByTwo :: tf_model where
  "offByTwo row = (case row of [] \<Rightarrow> [] | x # xs \<Rightarrow> js_add x (Num 2) # xs)"

definition numericService :: "(int \<rightharpoonup> RandomForestClassifier) \<Rightarrow> FraudDetectionService" where
  "numericService classifiers =
     \<lparr> anomalyDetector = \<lparr> model = Some offByTwo, threshold = Num (1 / 2) \<rparr>,
       behavioralProfiler = [1 \<mapsto> groceryProfile],
       userClassifiers = classifiers \<rparr>"

section \<open>How \<open>NaN\<close> travels\<close>

text \<open>
  The first transaction of a training list has no strictly earlier transaction, so its
  two frequencies are \<open>0 / 0\<close>. The lemmas follow that \<open>NaN\<close> through the loss into
  the threshold.
\<close>

lemma js_add_NaN_right: "js_add x NaN = NaN"
  by (cases x) simp_all

lemma js_mul_NaN_right: "js_mul x NaN = NaN"
  by (cases x) simp_all

lemma js_div_NaN_right: "js_div x NaN = NaN"
  by (cases x) simp_all

lemma js_sub_NaN_left: "js_sub NaN y = NaN"
  by (simp add: js_sub_def)

lemma foldl_js_add_NaN: "foldl js_add NaN xs = NaN"
  by (induction xs) simp_all

lemma foldl_js_add_mem_NaN: "NaN \<in> set xs \<Longrightarrow> foldl js_add acc xs = NaN"
proof (induction xs arbitrary: acc)
  case Nil
  then show ?case by simp
next
  case (Cons x xs)
  show ?case
  proof (cases "x = NaN")
    case True
    then show ?thesis by (simp add: js_add_NaN_right foldl_js_add_NaN)
  next
    case False
    with Cons.prems have "NaN \<in> set xs" by simp
    then show ?thesis by (simp add: Cons.IH)
  qed
qed

lemma js_sum_NaN: "NaN \<in> set xs \<Longrightarrow> js_sum xs = NaN"
  by (simp add: js_sum_def foldl_js_add_mem_NaN)

lemma squaredDifference_NaN: "NaN \<in> set x \<Longrightarrow> NaN \<in> set (squaredDifference x p)"
proof (induction x arbitrary: p)
  case Nil
  then show ?case by simp
next
  case (Cons a x)
  then show ?case by (auto simp: js_sub_NaN_left Let_def)
qed

lemma meanSquaredError_NaN:
  assumes "x \<in> set xs" and "NaN \<in> set x"
  shows "meanSquaredError xs (map m xs) = NaN"
proof -
  have "(x, m x) \<in> set (zip xs (map m xs))"
    using assms(1) by (auto simp: zip_map2 zip_same_conv_map)
  then have "set (squaredDifference x (m x))
      \<subseteq> set (concat (map (\<lambda>(x, p). squaredDifference x p) (zip xs (map m xs))))"
    by force
  with squaredDifference_NaN [OF assms(2)]
  have "NaN \<in> set (concat (map (\<lambda>(x, p). squaredDifference x p) (zip xs (map m xs))))"
    by blast
  then show ?thesis
    by (simp add: meanSquaredError_def Let_def js_sum_NaN)
qed

lemma earliest_has_no_history:
  assumes "transactions \<noteq> []"
  shows "\<exists>t \<in> set transactions. strictlyEarlier transactions t = []"
proof -
  let ?D = "transactionDate ` set transactions"
  have fin: "finite ?D" and ne: "?D \<noteq> {}" using assms by simp_all
  from Min_in [OF fin ne] obtain t where t: "t \<in> set transactions"
    and m: "transactionDate t = Min ?D" by auto
  have "\<forall>ht \<in> set transactions. \<not> transactionDate ht < transactionDate t"
    using Min_le [OF fin] m by (simp add: not_less)
  then have "strictlyEarlier transactions t = []"
    by (simp add: strictlyEarlier_def filter_empty_conv)
  with t show ?thesis by blast
qed

lemma features_empty_history_NaN:
  "NaN \<in> set (Object_values (extractTransactionFeatures t []))"
  by (simp add: Object_values_def extractTransactionFeatures_def Let_def js_length_def
      signed_inf_def)

lemma featureMatrix_Nil: "featureMatrix transactions = [] \<longleftrightarrow> transactions = []"
  by (simp add: featureMatrix_def)

lemma featureMatrix_has_NaN_row:
  assumes "transactions \<noteq> []"
  shows "\<exists>x \<in> set (featureMatrix transactions). NaN \<in> set x"
proof -
  from earliest_has_no_history [OF assms] obtain t where t: "t \<in> set transactions"
    and e: "strictlyEarlier transactions t = []" by blast
  have "Object_values (extractTransactionFeatures t []) \<in> set (featureMatrix transactions)"
    unfolding featureMatrix_def Let_def using t e by force
  then show ?thesis using features_empty_history_NaN by blast
qed

lemma train_threshold_NaN:
  assumes "transactions \<noteq> []"
  shows "AnomalyDetector_train fit transactions d =
    (Inr (), \<lparr> model = Some (fit (featureMatrix transactions)), threshold = NaN \<rparr>)"
proof -
  from featureMatrix_has_NaN_row [OF assms] obtain x
    where "x \<in> set (featureMatrix transactions)" and "NaN \<in> set x" by blast
  then have mse: "meanSquaredError (featureMatrix transactions)
      (map (fit (featureMatrix transactions)) (featureMatrix transactions)) = NaN"
    by (rule meanSquaredError_NaN)
  from assms obtain r rs where M: "featureMatrix transactions = r # rs"
    by (cases "featureMatrix transactions") (simp_all add: featureMatrix_Nil)
  show ?thesis
    unfolding AnomalyDetector_train_def Let_def mse by (simp add: M)
qed

lemma detectAnomaly_threshold_NaN:
  assumes "model d = Some m" and "threshold d = NaN"
  shows "detectAnomaly d t h =
    Inr \<lparr> score = NaN, isAnomaly_d = False, features_d = extractTransactionFeatures t h \<rparr>"
  using assms by (simp add: detectAnomaly_def Let_def js_div_NaN_right)

section \<open>The scenario, evaluated\<close>

lemma groceryHistory_profile:
  "updateProfile profiles 1 groceryHistory = (Inr (), profiles(1 \<mapsto> groceryProfile))"
  by (simp add: updateProfile_def groceryHistory_def groceryPurchase_def groceryProfile_def
      Let_def js_sum_def absAmount_def js_length_def getHours_def js_or_def)

lemma pharmacy_profile:
  "updateProfile profiles 2 [pharmacyPurchase] = (Inr (), profiles(2 \<mapsto> pharmacyProfile))"
  by (simp add: updateProfile_def pharmacyPurchase_def pharmacyProfile_def
      Let_def js_sum_def absAmount_def js_length_def getHours_def js_or_def)

lemma groceryHistory_forest:
  "majority_rf groceryHistory (map isFlagged groceryHistory) = (Inr (), neverFraud)"
  by (simp add: majority_rf_def groceryHistory_def groceryPurchase_def)

lemma pharmacy_forest:
  "majority_rf [pharmacyPurchase] (map isFlagged [pharmacyPurchase]) = (Inr (), neverFraud)"
  by (simp add: majority_rf_def pharmacyPurchase_def)

lemma corpus_groups:
  "groupByAccount [] (groceryHistory @ [pharmacyPurchase]) =
     [(1, groceryHistory), (2, [pharmacyPurchase])]"
  by (simp add: groceryHistory_def groceryPurchase_def pharmacyPurchase_def)

lemma groceryHistory_not_Nil: "groceryHistory \<noteq> []"
  by (simp add: groceryHistory_def)

lemma bootstrappedService_eq:
  "bootstrappedService =
     \<lparr> anomalyDetector = \<lparr> model = Some (\<lambda>row. row), threshold = NaN \<rparr>,
       behavioralProfiler = [1 \<mapsto> groceryProfile, 2 \<mapsto> pharmacyProfile],
       userClassifiers = [1 \<mapsto> \<lparr> model_rf = Some neverFraud, userId_rf = 1 \<rparr>,
                          2 \<mapsto> \<lparr> model_rf = Some neverFraud, userId_rf = 2 \<rparr>] \<rparr>"
proof -
  have ne: "groceryHistory @ [pharmacyPurchase] \<noteq> []" by simp
  show ?thesis
    unfolding bootstrappedService_def initialize_def train_threshold_NaN [OF ne] corpus_groups
    by (simp add: groceryHistory_profile pharmacy_profile new_FraudDetectionService_def
        RandomForestClassifier_train_def new_RandomForestClassifier_def groceryHistory_not_Nil
        echo_fit_def groceryHistory_forest [simplified] pharmacy_forest [simplified])
qed

lemma rejected_initialize:
  "initialize echo_fit rejecting_rf new_FraudDetectionService
     (groceryHistory @ [pharmacyPurchase])
   = (Inl (TypeError ''Input data contains non-numeric values''),
      \<lparr> anomalyDetector = \<lparr> model = Some (\<lambda>row. row), threshold = NaN \<rparr>,
        behavioralProfiler = [1 \<mapsto> groceryProfile],
        userClassifiers = Map.empty \<rparr>)"
proof -
  have ne: "groceryHistory @ [pharmacyPurchase] \<noteq> []" by simp
  show ?thesis
    unfolding initialize_def train_threshold_NaN [OF ne] corpus_groups
    by (simp add: groceryHistory_profile new_FraudDetectionService_def
        RandomForestClassifier_train_def new_RandomForestClassifier_def groceryHistory_not_Nil
        echo_fit_def rejecting_rf_def)
qed

lemma rejectedService_eq:
  "rejectedService =
     \<lparr> anomalyDetector = \<lparr> model = Some (\<lambda>row. row), threshold = NaN \<rparr>,
       behavioralProfiler = [1 \<mapsto> groceryProfile],
       userClassifiers = Map.empty \<rparr>"
  by (simp add: rejectedService_def rejected_initialize)

lemma technologyPurchase_unfamiliar:
  "getHours (transactionDate technologyPurchase) \<notin> typicalDayHours groceryProfile"
  "merchant technologyPurchase \<notin> typicalMerchants groceryProfile"
  "category technologyPurchase \<notin> typicalCategories groceryProfile"
  "js_gt (absAmount technologyPurchase) (js_mul (averageAmount groceryProfile) (Num 2))"
  by (simp_all add: technologyPurchase_def groceryProfile_def getHours_def absAmount_def)

lemma floor_rat_numeral: "\<lfloor>(numeral a / numeral b :: rat)\<rfloor> = numeral a div numeral b"
  using floor_divide_of_int_eq [of "numeral a" "numeral b", where ?'a = rat] by simp

lemma technologyPurchase_features:
  "extractTransactionFeatures technologyPurchase groceryHistory =
     \<lparr> hour = Num 3, isWeekend = Num 1, amount_feat = Num 450, amountVsMerchantAvg = Num 1,
       amountVsCategoryAvg = Num 1, transactionVelocity24h = Num 1, totalAmount24h = Num 52,
       merchantFrequency = Num 0, categoryFrequency = Num 0 \<rparr>"
  by (simp add: extractTransactionFeatures_def technologyPurchase_def groceryHistory_def
      groceryPurchase_def Let_def getHours_def getDay_def absAmount_def avgAmount_def
      js_or_def js_length_def js_sum_def)

lemma numeric_detection:
  "detectAnomaly (anomalyDetector (numericService classifiers)) technologyPurchase groceryHistory
     = Inr \<lparr> score = Num 89, isAnomaly_d = True,
             features_d = extractTransactionFeatures technologyPurchase groceryHistory \<rparr>"
  unfolding detectAnomaly_def numericService_def
  apply (simp add: Let_def technologyPurchase_features)
  apply (simp add: Object_values_def offByTwo_def meanSquaredError_def js_sub_def js_sum_def
      js_length_def floor_rat_numeral)
  done

lemma numeric_behavioral:
  "BehavioralProfiler_analyzeTransaction (behavioralProfiler (numericService classifiers)) 1
     technologyPurchase = Num 70"
  using technologyPurchase_unfamiliar
  by (simp add: BehavioralProfiler_analyzeTransaction_def Let_def numericService_def)

lemma lazy_training:
  "RandomForestClassifier_train majority_rf groceryHistory (map isFlagged groceryHistory)
     (new_RandomForestClassifier 1) = (Inr (), \<lparr> model_rf = Some neverFraud, userId_rf = 1 \<rparr>)"
  by (simp add: RandomForestClassifier_train_def groceryHistory_forest
      new_RandomForestClassifier_def groceryHistory_not_Nil)

section \<open>Behavioral profiler: the score\<close>

lemma behavioral_score_cases:
  assumes "userProfiles userId = Some p"
  shows "BehavioralProfiler_analyzeTransaction userProfiles userId t =
     Num ((if getHours (transactionDate t) \<notin> typicalDayHours p then 20 else 0)
        + (if merchant t \<notin> typicalMerchants p then 15 else 0)
        + (if category t \<notin> typicalCategories p then 10 else 0)
        + (if js_gt (absAmount t) (js_mul (averageAmount p) (Num 2)) then 25 else 0))"
  using assms by (simp add: BehavioralProfiler_analyzeTransaction_def Let_def)

text \<open>
  C10. For a holder with a profile, the behavioral score is the sum of some of the four
  penalties 20, 15, 10 and 25, so it is at most 70, and the cap at 100 is never reached.
\<close>

theorem behavioral_score_at_most_70:
  assumes "userProfiles userId = Some p"
  shows "\<exists>penalties. penalties \<in> set (subseqs [20, 15, 10, 25]) \<and>
           BehavioralProfiler_analyzeTransaction userProfiles userId t = Num (sum_list penalties) \<and>
           sum_list penalties \<le> 70 \<and>
           BehavioralProfiler_analyzeTransaction userProfiles userId t \<noteq> Num 100"
proof -
  let ?ps = "(if getHours (transactionDate t) \<notin> typicalDayHours p then [20] else [])
        @ (if merchant t \<notin> typicalMerchants p then [15] else [])
        @ (if category t \<notin> typicalCategories p then [10] else [])
        @ (if js_gt (absAmount t) (js_mul (averageAmount p) (Num 2)) then [25::rat] else [])"
  have 1: "?ps \<in> set (subseqs [20, 15, 10, 25])" by (simp add: Let_def)
  have 2: "BehavioralProfiler_analyzeTransaction userProfiles userId t = Num (sum_list ?ps)"
    using assms by (simp add: behavioral_score_cases [of userProfiles userId p t])
  have 3: "sum_list ?ps \<le> 70" by simp
  from 1 2 3 show ?thesis by (intro exI [of _ ?ps]) auto
qed

theorem behavioral_score_at_most_70_witness:
  "behavioralProfiler bootstrappedService 1 = Some groceryProfile \<and>
   (\<exists>penalties. penalties \<in> set (subseqs [20, 15, 10, 25]) \<and>
      BehavioralProfiler_analyzeTransaction (behavioralProfiler bootstrappedService) 1
        technologyPurchase = Num (sum_list penalties) \<and>
      sum_list penalties \<le> 70 \<and>
      BehavioralProfiler_analyzeTransaction (behavioralProfiler bootstrappedService) 1
        technologyPurchase \<noteq> Num 100)"
proof -
  have a: "behavioralProfiler bootstrappedService 1 = Some groceryProfile"
    by (simp add: bootstrappedService_eq)
  show ?thesis
    using a behavioral_score_at_most_70 [of "behavioralProfiler bootstrappedService" 1
        groceryProfile technologyPurchase]
    by simp
qed

text \<open>
  C7. The penalty of 25 for an unusual amount is decided by a strict comparison: an absolute
  amount of exactly twice the average of the profile leaves the score at the sum of the
  other three penalties, an amount above twice the average adds 25, and so does 2.01 times a
  positive average.
\<close>

theorem unusual_amount_is_strict:
  fixes t :: Transaction and p :: Profile
  assumes "userProfiles userId = Some p" and "averageAmount p = Num avg"
  defines "others \<equiv>
       (if getHours (transactionDate t) \<notin> typicalDayHours p then 20 else 0)
     + (if merchant t \<notin> typicalMerchants p then 15 else 0)
     + (if category t \<notin> typicalCategories p then 10 else 0)"
  shows "(\<bar>amount t\<bar> = 2 * avg \<longrightarrow>
            BehavioralProfiler_analyzeTransaction userProfiles userId t = Num others) \<and>
         (\<bar>amount t\<bar> > 2 * avg \<longrightarrow>
            BehavioralProfiler_analyzeTransaction userProfiles userId t = Num (others + 25)) \<and>
         (0 < avg \<and> \<bar>amount t\<bar> = (201 / 100) * avg \<longrightarrow>
            BehavioralProfiler_analyzeTransaction userProfiles userId t = Num (others + 25))"
  using assms(1,2) unfolding others_def
  by (simp add: behavioral_score_cases [of userProfiles userId p t] absAmount_def)

theorem unusual_amount_is_strict_witness:
  "behavioralProfiler bootstrappedService 1 = Some groceryProfile \<and>
   averageAmount groceryProfile = Num 50 \<and>
   \<bar>amount (groceryPurchase 12 100)\<bar> = 2 * 50 \<and>
   BehavioralProfiler_analyzeTransaction (behavioralProfiler bootstrappedService) 1
     (groceryPurchase 12 100) = Num 0 \<and>
   \<bar>amount (groceryPurchase 12 (- 101))\<bar> > 2 * 50 \<and>
   BehavioralProfiler_analyzeTransaction (behavioralProfiler bootstrappedService) 1
     (groceryPurchase 12 (- 101)) = Num 25 \<and>
   (0::rat) < 50 \<and> \<bar>amount (groceryPurchase 12 (201 / 2))\<bar> = (201 / 100) * 50 \<and>
   BehavioralProfiler_analyzeTransaction (behavioralProfiler bootstrappedService) 1
     (groceryPurchase 12 (201 / 2)) = Num 25"
proof -
  have a: "behavioralProfiler bootstrappedService 1 = Some groceryProfile"
    by (simp add: bootstrappedService_eq)
  have b: "averageAmount groceryProfile = Num 50" by (simp add: groceryProfile_def)
  have f: "getHours (transactionDate (groceryPurchase 12 x)) \<in> typicalDayHours groceryProfile"
    "merchant (groceryPurchase 12 x) \<in> typicalMerchants groceryProfile"
    "category (groceryPurchase 12 x) \<in> typicalCategories groceryProfile"
    "amount (groceryPurchase 12 x) = x" for x
    by (simp_all add: groceryPurchase_def groceryProfile_def getHours_def)
  show ?thesis
    using a b
      unusual_amount_is_strict [OF _ b, of "behavioralProfiler bootstrappedService" 1
        "groceryPurchase 12 100"]
      unusual_amount_is_strict [OF _ b, of "behavioralProfiler bootstrappedService" 1
        "groceryPurchase 12 (- 101)"]
      unusual_amount_is_strict [OF _ b, of "behavioralProfiler bootstrappedService" 1
        "groceryPurchase 12 (201 / 2)"]
    by (simp add: f)
qed

text \<open>
  C8. Cold start: the behavioral score of a holder without a profile is exactly 0, and the
  prediction of a classifier without a model is exactly 0; neither is an error.
\<close>

theorem cold_start_scores_zero:
  assumes "userProfiles userId = None" and "model_rf c = None"
  shows "BehavioralProfiler_analyzeTransaction userProfiles userId t = Num 0 \<and>
         RandomForestClassifier_predict c t h = Inr (Num 0)"
  using assms
  by (simp add: BehavioralProfiler_analyzeTransaction_def RandomForestClassifier_predict_def)

theorem cold_start_scores_zero_witness:
  "behavioralProfiler new_FraudDetectionService 1 = None \<and>
   model_rf (new_RandomForestClassifier 1) = None \<and>
   BehavioralProfiler_analyzeTransaction (behavioralProfiler new_FraudDetectionService) 1
     technologyPurchase = Num 0 \<and>
   RandomForestClassifier_predict (new_RandomForestClassifier 1) technologyPurchase
     groceryHistory = Inr (Num 0)"
proof -
  have a: "behavioralProfiler new_FraudDetectionService 1 = None"
    by (simp add: new_FraudDetectionService_def)
  have b: "model_rf (new_RandomForestClassifier 1) = None"
    by (simp add: new_RandomForestClassifier_def)
  show ?thesis
    using a b cold_start_scores_zero [of "behavioralProfiler new_FraudDetectionService" 1
        "new_RandomForestClassifier 1" technologyPurchase groceryHistory]
    by simp
qed

section \<open>Anomaly detector: errors\<close>

text \<open>
  C6. A detector whose model is still absent, in either variant, answers \<open>detectAnomaly\<close>
  with the error \<open>Model not trained\<close>, for every transaction and history; it returns no
  score.
\<close>

theorem detectAnomaly_untrained:
  assumes "model d = None" and "model_if d' = None"
  shows "detectAnomaly d t h = Inl (Error ''Model not trained'') \<and>
         IsolationDetector_detectAnomaly d' t h = Inl (Error ''Model not trained'')"
  using assms by (simp add: detectAnomaly_def IsolationDetector_detectAnomaly_def)

theorem detectAnomaly_untrained_witness:
  "model new_AnomalyDetector = None \<and> model_if new_IsolationDetector = None \<and>
   detectAnomaly new_AnomalyDetector technologyPurchase groceryHistory
     = Inl (Error ''Model not trained'') \<and>
   IsolationDetector_detectAnomaly new_IsolationDetector technologyPurchase groceryHistory
     = Inl (Error ''Model not trained'')"
proof -
  have a: "model new_AnomalyDetector = None" by (simp add: new_AnomalyDetector_def)
  have b: "model_if new_IsolationDetector = None" by (simp add: new_IsolationDetector_def)
  show ?thesis
    using a b detectAnomaly_untrained [OF a b, of technologyPurchase groceryHistory] by simp
qed

section \<open>Score fusion\<close>

text \<open>What \<open>analyzeTransaction\<close> returns, and when it throws.\<close>

lemma predict_values:
  assumes "RandomForestClassifier_predict c t h = Inr p"
  shows "p = Num 0 \<or> p = Num 100"
  using assms
  by (auto simp: RandomForestClassifier_predict_def split: option.splits sum.splits if_splits)

lemma analyzeTransaction_returns:
  assumes "detectAnomaly (anomalyDetector s) t h = Inr a"
    and "userClassifiers s userId = Some c \<and> s' = s \<or>
         userClassifiers s userId = None \<and>
         RandomForestClassifier_train rf h (map isFlagged h) (new_RandomForestClassifier userId)
           = (Inr (), c) \<and>
         s' = s\<lparr> userClassifiers := (userClassifiers s)(userId \<mapsto> c) \<rparr>"
    and "RandomForestClassifier_predict c t h = Inr p"
  shows "analyzeTransaction rf s t userId h =
    (Inr (assessment a
            (BehavioralProfiler_analyzeTransaction (behavioralProfiler s) userId t) p), s')"
  using assms(2)
proof
  assume "userClassifiers s userId = Some c \<and> s' = s"
  then show ?thesis
    using assms(1,3) by (simp add: analyzeTransaction_def Let_def)
next
  assume "userClassifiers s userId = None \<and>
         RandomForestClassifier_train rf h (map isFlagged h) (new_RandomForestClassifier userId)
           = (Inr (), c) \<and>
         s' = s\<lparr> userClassifiers := (userClassifiers s)(userId \<mapsto> c) \<rparr>"
  then show ?thesis
    using assms(1,3) by (simp add: analyzeTransaction_def Let_def)
qed

lemma analyzeTransaction_throws:
  "detectAnomaly (anomalyDetector s) t h = Inl e \<Longrightarrow>
     analyzeTransaction rf s t userId h = (Inl e, s)"
  "detectAnomaly (anomalyDetector s) t h = Inr a \<Longrightarrow> userClassifiers s userId = None \<Longrightarrow>
     RandomForestClassifier_train rf h (map isFlagged h) (new_RandomForestClassifier userId)
       = (Inl e, c) \<Longrightarrow>
     analyzeTransaction rf s t userId h = (Inl e, s)"
  "detectAnomaly (anomalyDetector s) t h = Inr a \<Longrightarrow> userClassifiers s userId = Some c \<Longrightarrow>
     RandomForestClassifier_predict c t h = Inl e \<Longrightarrow>
     analyzeTransaction rf s t userId h = (Inl e, s)"
  by (simp_all add: analyzeTransaction_def Let_def)

text \<open>
  C1. When the detector returns a result and the classifier of the holder, the one in the
  map or the one trained on the spot, returns a prediction, \<open>analyzeTransaction\<close> returns
  the assessment made of exactly these: its anomaly score is the score of \<open>detectAnomaly\<close>,
  its behavioral score the one of the profiler, its classifier score the prediction, its
  suspicion score the rounding of 0.4 times the first plus 0.3 times the second plus 0.3
  times the third, and its flag says that this suspicion score is strictly above 70. For
  the component scores 80, 60 and 40 the weighted sum rounds to 62, which is not above 70;
  for 95, 90 and 90 it rounds to 92, which is.
\<close>

theorem analyzeTransaction_fuses_component_scores:
  assumes "detectAnomaly (anomalyDetector s) t h = Inr a"
    and "userClassifiers s userId = Some c \<and> s' = s \<or>
         userClassifiers s userId = None \<and>
         RandomForestClassifier_train rf h (map isFlagged h) (new_RandomForestClassifier userId)
           = (Inr (), c) \<and>
         s' = s\<lparr> userClassifiers := (userClassifiers s)(userId \<mapsto> c) \<rparr>"
    and "RandomForestClassifier_predict c t h = Inr p"
  shows "analyzeTransaction rf s t userId h =
           (Inr \<lparr> suspiciousScore =
                     Math_round
                       (js_add
                          (js_add (js_mul (score a) (Num (4 / 10)))
                             (js_mul (BehavioralProfiler_analyzeTransaction
                                        (behavioralProfiler s) userId t) (Num (3 / 10))))
                          (js_mul p (Num (3 / 10)))),
                   isAnomaly =
                     js_gt
                       (Math_round
                          (js_add
                             (js_add (js_mul (score a) (Num (4 / 10)))
                                (js_mul (BehavioralProfiler_analyzeTransaction
                                           (behavioralProfiler s) userId t) (Num (3 / 10))))
                             (js_mul p (Num (3 / 10)))))
                       (Num 70),
                   anomalyScore = score a,
                   behavioralScore =
                     BehavioralProfiler_analyzeTransaction (behavioralProfiler s) userId t,
                   classifierScore = p,
                   features = features_d a \<rparr>, s') \<and>
         Math_round
           (js_add (js_add (js_mul (Num 80) (Num (4 / 10))) (js_mul (Num 60) (Num (3 / 10))))
              (js_mul (Num 40) (Num (3 / 10)))) = Num 62 \<and>
         js_gt (Num 62) (Num 70) = False \<and>
         Math_round
           (js_add (js_add (js_mul (Num 95) (Num (4 / 10))) (js_mul (Num 90) (Num (3 / 10))))
              (js_mul (Num 90) (Num (3 / 10)))) = Num 92 \<and>
         js_gt (Num 92) (Num 70) = True"
  using analyzeTransaction_returns [OF assms]
  by (simp add: assessment_def combinedScore_def Let_def floor_rat_numeral)

text \<open>
  Two runs of the purchase of 450 on the service whose scores are numbers. With a classifier
  that votes fraud, the scores 89, 70 and 100 fuse to 87, and the purchase is flagged;
  without a classifier, one is trained on the un-flagged history and stored, the scores 89,
  70 and 0 fuse to 57, and the purchase is not flagged.
\<close>

theorem analyzeTransaction_fuses_component_scores_witness:
  "detectAnomaly
     (anomalyDetector (numericService [1 \<mapsto> \<lparr> model_rf = Some alwaysFraud, userId_rf = 1 \<rparr>]))
     technologyPurchase groceryHistory
     = Inr \<lparr> score = Num 89, isAnomaly_d = True,
             features_d = extractTransactionFeatures technologyPurchase groceryHistory \<rparr> \<and>
   userClassifiers (numericService [1 \<mapsto> \<lparr> model_rf = Some alwaysFraud, userId_rf = 1 \<rparr>]) 1
     = Some \<lparr> model_rf = Some alwaysFraud, userId_rf = 1 \<rparr> \<and>
   RandomForestClassifier_predict \<lparr> model_rf = Some alwaysFraud, userId_rf = 1 \<rparr>
     technologyPurchase groceryHistory = Inr (Num 100) \<and>
   analyzeTransaction majority_rf
     (numericService [1 \<mapsto> \<lparr> model_rf = Some alwaysFraud, userId_rf = 1 \<rparr>])
     technologyPurchase 1 groceryHistory
     = (Inr \<lparr> suspiciousScore = Num 87, isAnomaly = True, anomalyScore = Num 89,
              behavioralScore = Num 70, classifierScore = Num 100,
              features = extractTransactionFeatures technologyPurchase groceryHistory \<rparr>,
        numericService [1 \<mapsto> \<lparr> model_rf = Some alwaysFraud, userId_rf = 1 \<rparr>]) \<and>
   userClassifiers (numericService Map.empty) 1 = None \<and>
   RandomForestClassifier_train majority_rf groceryHistory (map isFlagged groceryHistory)
     (new_RandomForestClassifier 1) = (Inr (), \<lparr> model_rf = Some neverFraud, userId_rf = 1 \<rparr>) \<and>
   RandomForestClassifier_predict \<lparr> model_rf = Some neverFraud, userId_rf = 1 \<rparr>
     technologyPurchase groceryHistory = Inr (Num 0) \<and>
   analyzeTransaction majority_rf (numericService Map.empty) technologyPurchase 1 groceryHistory
     = (Inr \<lparr> suspiciousScore = Num 57, isAnomaly = False, anomalyScore = Num 89,
              behavioralScore = Num 70, classifierScore = Num 0,
              features = extractTransactionFeatures technologyPurchase groceryHistory \<rparr>,
        numericService [1 \<mapsto> \<lparr> model_rf = Some neverFraud, userId_rf = 1 \<rparr>])"
proof -
  let ?c = "\<lparr> model_rf = Some alwaysFraud, userId_rf = 1 \<rparr>"
  let ?n = "\<lparr> model_rf = Some neverFraud, userId_rf = 1 \<rparr>"
  note det = numeric_detection
  have c1: "userClassifiers (numericService [1 \<mapsto> ?c]) 1 = Some ?c"
    and c2: "userClassifiers (numericService Map.empty) 1 = None"
    and upd: "numericService [1 \<mapsto> ?n]
      = (numericService Map.empty)\<lparr> userClassifiers :=
           (userClassifiers (numericService Map.empty))(1 \<mapsto> ?n) \<rparr>"
    by (simp_all add: numericService_def)
  have p1: "RandomForestClassifier_predict ?c technologyPurchase groceryHistory = Inr (Num 100)"
    and p2: "RandomForestClassifier_predict ?n technologyPurchase groceryHistory = Inr (Num 0)"
    by (simp_all add: RandomForestClassifier_predict_def alwaysFraud_def neverFraud_def)
  have first: "analyzeTransaction majority_rf (numericService [1 \<mapsto> ?c]) technologyPurchase 1
      groceryHistory
     = (Inr \<lparr> suspiciousScore = Num 87, isAnomaly = True, anomalyScore = Num 89,
              behavioralScore = Num 70, classifierScore = Num 100,
              features = extractTransactionFeatures technologyPurchase groceryHistory \<rparr>,
        numericService [1 \<mapsto> ?c])"
    using analyzeTransaction_fuses_component_scores
      [where s = "numericService [1 \<mapsto> ?c]" and s' = "numericService [1 \<mapsto> ?c]"
        and t = technologyPurchase and h = groceryHistory and userId = 1 and c = ?c
        and p = "Num 100" and rf = majority_rf, OF det _ p1]
      c1
    by (simp add: numeric_behavioral floor_rat_numeral)
  have second: "analyzeTransaction majority_rf (numericService Map.empty) technologyPurchase 1
      groceryHistory
     = (Inr \<lparr> suspiciousScore = Num 57, isAnomaly = False, anomalyScore = Num 89,
              behavioralScore = Num 70, classifierScore = Num 0,
              features = extractTransactionFeatures technologyPurchase groceryHistory \<rparr>,
        numericService [1 \<mapsto> ?n])"
    using analyzeTransaction_fuses_component_scores
      [where s = "numericService Map.empty" and s' = "numericService [1 \<mapsto> ?n]"
        and t = technologyPurchase and h = groceryHistory and userId = 1 and c = ?n
        and p = "Num 0" and rf = majority_rf, OF det _ p2]
      c2 lazy_training upd
    by (simp add: numeric_behavioral floor_rat_numeral)
  show ?thesis
    using det c1 p1 first c2 lazy_training p2 second by simp
qed

section \<open>Feedback\<close>

lemma updateProfile_nonempty:
  assumes "transactions \<noteq> []"
  shows "\<exists>profile. updateProfile userProfiles userId transactions
           = (Inr (), userProfiles(userId \<mapsto> profile))"
proof (cases transactions)
  case Nil
  with assms show ?thesis by simp
next
  case (Cons first rest)
  then show ?thesis unfolding updateProfile_def Let_def by (simp only: list.case) blast
qed

text \<open>
  C9. \<open>updateModels\<close> leaves the anomaly detector, its model and threshold, as it was.
  The profile of the given holder is replaced by the one \<open>updateProfile\<close> builds from the
  history with the transaction appended; the classifier of that holder, if there is one, is
  replaced by what its \<open>updateModel\<close> leaves, and none is created; the profiles and
  classifiers of all other holders stay. The call fails only when there is such a
  classifier and its \<open>updateModel\<close> fails.
\<close>

theorem updateModels_frame:
  fixes s :: FraudDetectionService and t :: Transaction and userId :: int
    and isActuallyFraud :: bool and h :: "Transaction list"
    and rf :: forest_training
  defines "s' \<equiv> snd (updateModels rf s t userId isActuallyFraud h)"
  shows "fst (updateModels rf s t userId isActuallyFraud h)
           = (case userClassifiers s userId of
                None \<Rightarrow> Inr ()
              | Some c \<Rightarrow> fst (RandomForestClassifier_updateModel rf t isActuallyFraud h c)) \<and>
         anomalyDetector s' = anomalyDetector s \<and>
         behavioralProfiler s' userId
           = snd (updateProfile (behavioralProfiler s) userId (h @ [t])) userId \<and>
         behavioralProfiler s' userId \<noteq> None \<and>
         userClassifiers s' userId
           = map_option (\<lambda>c. snd (RandomForestClassifier_updateModel rf t isActuallyFraud h c))
               (userClassifiers s userId) \<and>
         (\<forall>other. other \<noteq> userId \<longrightarrow>
            behavioralProfiler s' other = behavioralProfiler s other \<and>
            userClassifiers s' other = userClassifiers s other)"
proof -
  obtain profile where p: "updateProfile (behavioralProfiler s) userId (h @ [t])
      = (Inr (), (behavioralProfiler s)(userId \<mapsto> profile))"
    using updateProfile_nonempty [of "h @ [t]" "behavioralProfiler s" userId] by auto
  show ?thesis
    unfolding s'_def updateModels_def p
    by (cases "userClassifiers s userId") (simp_all add: Let_def split: prod.splits)
qed

theorem updateModels_frame_witness:
  "(2::int) \<noteq> 1 \<and>
   fst (updateModels majority_rf bootstrappedService technologyPurchase 1 True groceryHistory)
     = Inr () \<and>
   anomalyDetector (snd (updateModels majority_rf bootstrappedService technologyPurchase 1 True
      groceryHistory)) = anomalyDetector bootstrappedService \<and>
   behavioralProfiler (snd (updateModels majority_rf bootstrappedService technologyPurchase 1 True
      groceryHistory)) 2 = Some pharmacyProfile \<and>
   userClassifiers (snd (updateModels majority_rf bootstrappedService technologyPurchase 1 True
      groceryHistory)) 2 = Some \<lparr> model_rf = Some neverFraud, userId_rf = 2 \<rparr> \<and>
   fst (updateModels rejecting_rf bootstrappedService technologyPurchase 1 True groceryHistory)
     = Inl (TypeError ''Input data contains non-numeric values'') \<and>
   anomalyDetector (snd (updateModels rejecting_rf bootstrappedService technologyPurchase 1 True
      groceryHistory)) = anomalyDetector bootstrappedService \<and>
   userClassifiers (snd (updateModels rejecting_rf bootstrappedService technologyPurchase 1 True
      groceryHistory)) 2 = Some \<lparr> model_rf = Some neverFraud, userId_rf = 2 \<rparr>"
  using updateModels_frame [of majority_rf bootstrappedService technologyPurchase 1 True
      groceryHistory]
    updateModels_frame [of rejecting_rf bootstrappedService technologyPurchase 1 True
      groceryHistory]
  by (simp add: bootstrappedService_eq RandomForestClassifier_updateModel_def
      RandomForestClassifier_train_def majority_rf_def rejecting_rf_def)

section \<open>The end-to-end scenario\<close>

lemma anomaly_score_shape:
  "Math_min (Math_round x) (Num 100) = NaN \<or> Math_min (Math_round x) (Num 100) = NegInf \<or>
   (\<exists>k. k \<le> 100 \<and> Math_min (Math_round x) (Num 100) = Num (of_int k))"
proof (cases x)
  case (Num a)
  show ?thesis
  proof (cases "\<lfloor>a + 1 / 2\<rfloor> \<le> 100")
    case True
    then have "Math_min (Math_round x) (Num 100) = Num (of_int \<lfloor>a + 1 / 2\<rfloor>)"
      using Num by simp
    with True show ?thesis by blast
  next
    case False
    then have "Math_min (Math_round x) (Num 100) = Num (of_int 100)"
      using Num by simp
    then show ?thesis by (metis order_refl)
  qed
next
  case PosInf
  then have "Math_min (Math_round x) (Num 100) = Num (of_int 100)" by simp
  then show ?thesis by (metis order_refl)
qed simp_all

lemma fused_with_behavioral_70_classifier_100:
  "js_gt (combinedScore (Num (of_int k)) (Num 70) (Num 100)) (Num 70) = (48 < k)"
proof -
  have "js_gt (combinedScore (Num (of_int k)) (Num 70) (Num 100)) (Num 70)
      = (70 < \<lfloor>of_int k * (4 / 10) + 51 + 1 / 2 :: rat\<rfloor>)"
    by (simp add: combinedScore_def)
  also have "\<dots> = (71 \<le> \<lfloor>of_int k * (4 / 10) + 51 + 1 / 2 :: rat\<rfloor>)" by linarith
  also have "\<dots> = ((71::rat) \<le> of_int k * (4 / 10) + 51 + 1 / 2)"
    using le_floor_iff [of 71 "of_int k * (4 / 10) + 51 + 1 / 2 :: rat"] by simp
  also have "\<dots> = ((195::rat) \<le> of_int (4 * k))" by (simp add: field_simps)
  also have "\<dots> = (195 \<le> 4 * k)"
    using of_int_le_iff [of 195 "4 * k", where ?'a = rat] by simp
  also have "\<dots> = (48 < k)" by presburger
  finally show ?thesis .
qed

lemma fused_with_behavioral_70_classifier_0:
  assumes "k \<le> 100"
  shows "js_gt (combinedScore (Num (of_int k)) (Num 70) (Num 0)) (Num 70) = False"
proof -
  have "js_gt (combinedScore (Num (of_int k)) (Num 70) (Num 0)) (Num 70)
      = (70 < \<lfloor>of_int k * (4 / 10) + 21 + 1 / 2 :: rat\<rfloor>)"
    by (simp add: combinedScore_def)
  also have "\<dots> = (71 \<le> \<lfloor>of_int k * (4 / 10) + 21 + 1 / 2 :: rat\<rfloor>)" by linarith
  also have "\<dots> = ((71::rat) \<le> of_int k * (4 / 10) + 21 + 1 / 2)"
    using le_floor_iff [of 71 "of_int k * (4 / 10) + 21 + 1 / 2 :: rat"] by simp
  also have "\<dots> = ((495::rat) \<le> of_int (4 * k))" by (simp add: field_simps)
  also have "\<dots> = (495 \<le> 4 * k)"
    using of_int_le_iff [of 495 "4 * k", where ?'a = rat] by simp
  also have "\<dots> = False" using assms by presburger
  finally show ?thesis .
qed

lemma fused_with_behavioral_70:
  assumes "a = NaN \<or> a = NegInf \<or> (\<exists>k. k \<le> 100 \<and> a = Num (of_int k))"
    and "c = Num 0 \<or> c = Num 100"
  shows "js_gt (combinedScore a (Num 70) c) (Num 70) = (c = Num 100 \<and> js_gt a (Num 48))"
proof -
  consider "a = NaN" | "a = NegInf" | k where "k \<le> 100" "a = Num (of_int k)"
    using assms(1) by blast
  then show ?thesis
  proof cases
    case 1
    then show ?thesis using assms(2) by (auto simp: combinedScore_def)
  next
    case 2
    then show ?thesis using assms(2) by (auto simp: combinedScore_def signed_inf_def)
  next
    case 3
    from assms(2) show ?thesis
    proof
      assume "c = Num 0"
      then show ?thesis
        using fused_with_behavioral_70_classifier_0 [OF 3(1)] 3(2) by simp
    next
      assume "c = Num 100"
      then show ?thesis
        using fused_with_behavioral_70_classifier_100 [of k] 3(2) by simp
    qed
  qed
qed

lemma detectAnomaly_score_shape:
  assumes "detectAnomaly d t h = Inr r"
  shows "score r = NaN \<or> score r = NegInf \<or> (\<exists>k. k \<le> 100 \<and> score r = Num (of_int k))"
proof (cases "model d")
  case None
  with assms show ?thesis by (simp add: detectAnomaly_def)
next
  case (Some m)
  with assms obtain x where "score r = Math_min (Math_round x) (Num 100)"
    by (auto simp: detectAnomaly_def Let_def)
  then show ?thesis using anomaly_score_shape [of x] by simp
qed

text \<open>
  C3, as amended. For a holder whose profile has not seen the hour, the merchant or the
  category of a transaction, and whose average is less than half its amount, whenever the
  detector returns a score and the classifier a prediction, \<open>analyzeTransaction\<close> returns
  an assessment with the behavioral score exactly 70, with the suspicion score the rounding
  of 0.4 times the anomaly score plus 21 plus 0.3 times the classifier score, and with the
  flag set exactly when the classifier score is 100 and the anomaly score is above 48: the
  behavioral score alone never carries the suspicion score over 70.
\<close>

theorem unfamiliar_purchase_assessment:
  assumes "detectAnomaly (anomalyDetector s) t h = Inr a"
    and "userClassifiers s userId = Some c \<and> s' = s \<or>
         userClassifiers s userId = None \<and>
         RandomForestClassifier_train rf h (map isFlagged h) (new_RandomForestClassifier userId)
           = (Inr (), c) \<and>
         s' = s\<lparr> userClassifiers := (userClassifiers s)(userId \<mapsto> c) \<rparr>"
    and "RandomForestClassifier_predict c t h = Inr p"
    and "behavioralProfiler s userId = Some profile"
    and "getHours (transactionDate t) \<notin> typicalDayHours profile"
    and "merchant t \<notin> typicalMerchants profile"
    and "category t \<notin> typicalCategories profile"
    and "js_gt (absAmount t) (js_mul (averageAmount profile) (Num 2))"
  shows "\<exists>r. analyzeTransaction rf s t userId h = (Inr r, s') \<and>
           behavioralScore r
             = BehavioralProfiler_analyzeTransaction (behavioralProfiler s) userId t \<and>
           behavioralScore r = Num 70 \<and>
           anomalyScore r = score a \<and>
           classifierScore r = p \<and>
           suspiciousScore r =
             Math_round
               (js_add (js_add (js_mul (score a) (Num (4 / 10))) (Num 21))
                  (js_mul p (Num (3 / 10)))) \<and>
           isAnomaly r = js_gt (suspiciousScore r) (Num 70) \<and>
           isAnomaly r = (p = Num 100 \<and> js_gt (score a) (Num 48))"
proof -
  let ?b = "BehavioralProfiler_analyzeTransaction (behavioralProfiler s) userId t"
  have b70: "?b = Num 70"
    using assms(4-8) by (simp add: behavioral_score_cases [of "behavioralProfiler s" userId profile t])
  have run: "analyzeTransaction rf s t userId h = (Inr (assessment a (Num 70) p), s')"
    using analyzeTransaction_returns [OF assms(1-3)] by (simp add: b70)
  have flag: "js_gt (combinedScore (score a) (Num 70) p) (Num 70)
      = (p = Num 100 \<and> js_gt (score a) (Num 48))"
    by (rule fused_with_behavioral_70
        [OF detectAnomaly_score_shape [OF assms(1)] predict_values [OF assms(3)]])
  have sus: "combinedScore (score a) (Num 70) p
      = Math_round (js_add (js_add (js_mul (score a) (Num (4 / 10))) (Num 21))
          (js_mul p (Num (3 / 10))))"
    by (simp add: combinedScore_def)
  show ?thesis
    unfolding run using flag sus b70 by (simp add: assessment_def Let_def)
qed

theorem unfamiliar_purchase_assessment_witness:
  "detectAnomaly
     (anomalyDetector (numericService [1 \<mapsto> \<lparr> model_rf = Some alwaysFraud, userId_rf = 1 \<rparr>]))
     technologyPurchase groceryHistory
     = Inr \<lparr> score = Num 89, isAnomaly_d = True,
             features_d = extractTransactionFeatures technologyPurchase groceryHistory \<rparr> \<and>
   userClassifiers (numericService [1 \<mapsto> \<lparr> model_rf = Some alwaysFraud, userId_rf = 1 \<rparr>]) 1
     = Some \<lparr> model_rf = Some alwaysFraud, userId_rf = 1 \<rparr> \<and>
   RandomForestClassifier_predict \<lparr> model_rf = Some alwaysFraud, userId_rf = 1 \<rparr>
     technologyPurchase groceryHistory = Inr (Num 100) \<and>
   behavioralProfiler (numericService [1 \<mapsto> \<lparr> model_rf = Some alwaysFraud, userId_rf = 1 \<rparr>]) 1
     = Some groceryProfile \<and>
   getHours (transactionDate technologyPurchase) \<notin> typicalDayHours groceryProfile \<and>
   merchant technologyPurchase \<notin> typicalMerchants groceryProfile \<and>
   category technologyPurchase \<notin> typicalCategories groceryProfile \<and>
   js_gt (absAmount technologyPurchase) (js_mul (averageAmount groceryProfile) (Num 2)) \<and>
   (\<exists>r. analyzeTransaction majority_rf
          (numericService [1 \<mapsto> \<lparr> model_rf = Some alwaysFraud, userId_rf = 1 \<rparr>])
          technologyPurchase 1 groceryHistory
          = (Inr r, numericService [1 \<mapsto> \<lparr> model_rf = Some alwaysFraud, userId_rf = 1 \<rparr>]) \<and>
        behavioralScore r = Num 70 \<and> anomalyScore r = Num 89 \<and> classifierScore r = Num 100 \<and>
        suspiciousScore r = Num 87 \<and> isAnomaly r = True)"
proof -
  let ?c = "\<lparr> model_rf = Some alwaysFraud, userId_rf = 1 \<rparr>"
  note det = numeric_detection [of "[1 \<mapsto> ?c]"]
  note u = technologyPurchase_unfamiliar
  have c1: "userClassifiers (numericService [1 \<mapsto> ?c]) 1 = Some ?c"
    and b1: "behavioralProfiler (numericService [1 \<mapsto> ?c]) 1 = Some groceryProfile"
    by (simp_all add: numericService_def)
  have p1: "RandomForestClassifier_predict ?c technologyPurchase groceryHistory = Inr (Num 100)"
    by (simp add: RandomForestClassifier_predict_def alwaysFraud_def)
  have path: "userClassifiers (numericService [1 \<mapsto> ?c]) 1 = Some ?c \<and>
      numericService [1 \<mapsto> ?c] = numericService [1 \<mapsto> ?c] \<or>
      userClassifiers (numericService [1 \<mapsto> ?c]) 1 = None \<and>
      RandomForestClassifier_train majority_rf groceryHistory (map isFlagged groceryHistory)
        (new_RandomForestClassifier 1) = (Inr (), ?c) \<and>
      numericService [1 \<mapsto> ?c] = (numericService [1 \<mapsto> ?c])\<lparr> userClassifiers :=
        (userClassifiers (numericService [1 \<mapsto> ?c]))(1 \<mapsto> ?c) \<rparr>"
    using c1 by simp
  have "\<exists>r. analyzeTransaction majority_rf (numericService [1 \<mapsto> ?c]) technologyPurchase 1
          groceryHistory = (Inr r, numericService [1 \<mapsto> ?c]) \<and>
        behavioralScore r = Num 70 \<and> anomalyScore r = Num 89 \<and> classifierScore r = Num 100 \<and>
        suspiciousScore r = Num 87 \<and> isAnomaly r = True"
    using unfamiliar_purchase_assessment [OF det path p1 b1 u]
    by (auto simp: floor_rat_numeral)
  then show ?thesis
    using det c1 p1 b1 u by simp
qed

text \<open>
  C3, as stated, fails in the worked scenario, whatever the library does. When the training
  of the forest rejects its rows, the service is left without a classifier and the purchase
  of 450 gets no assessment, only the error of the training. When the training returns, the
  service is bootstrapped on the ten grocery purchases, none flagged, and the purchase gets
  the behavioral score 70 and the classifier score 0 and is not flagged. With these two
  scores even the largest anomaly score, 100, fuses to 61.
\<close>

theorem technology_purchase_not_flagged:
  "analyzeTransaction rejecting_rf rejectedService technologyPurchase 1 groceryHistory
     = (Inl (TypeError ''Input data contains non-numeric values''), rejectedService) \<and>
   fst (analyzeTransaction majority_rf bootstrappedService technologyPurchase 1 groceryHistory)
     = Inr \<lparr> suspiciousScore = NaN, isAnomaly = False, anomalyScore = NaN,
             behavioralScore = Num 70, classifierScore = Num 0,
             features = extractTransactionFeatures technologyPurchase groceryHistory \<rparr> \<and>
   combinedScore (Num 100) (Num 70) (Num 0) = Num 61 \<and>
   js_gt (Num 61) (Num 70) = False"
proof -
  have d: "detectAnomaly (anomalyDetector bootstrappedService) technologyPurchase groceryHistory
     = Inr \<lparr> score = NaN, isAnomaly_d = False,
             features_d = extractTransactionFeatures technologyPurchase groceryHistory \<rparr>"
    by (rule detectAnomaly_threshold_NaN) (simp_all add: bootstrappedService_eq)
  have d': "detectAnomaly (anomalyDetector rejectedService) technologyPurchase groceryHistory
     = Inr \<lparr> score = NaN, isAnomaly_d = False,
             features_d = extractTransactionFeatures technologyPurchase groceryHistory \<rparr>"
    by (rule detectAnomaly_threshold_NaN) (simp_all add: rejectedService_eq)
  have b: "BehavioralProfiler_analyzeTransaction (behavioralProfiler bootstrappedService) 1
      technologyPurchase = Num 70"
    using technologyPurchase_unfamiliar
    by (simp add: behavioral_score_cases [of _ 1 groceryProfile] bootstrappedService_eq)
  have c: "userClassifiers bootstrappedService 1
      = Some \<lparr> model_rf = Some neverFraud, userId_rf = 1 \<rparr>"
    by (simp add: bootstrappedService_eq)
  have p: "RandomForestClassifier_predict \<lparr> model_rf = Some neverFraud, userId_rf = 1 \<rparr>
      technologyPurchase groceryHistory = Inr (Num 0)"
    by (simp add: RandomForestClassifier_predict_def neverFraud_def)
  have run: "analyzeTransaction majority_rf bootstrappedService technologyPurchase 1
      groceryHistory
     = (Inr (assessment \<lparr> score = NaN, isAnomaly_d = False,
             features_d = extractTransactionFeatures technologyPurchase groceryHistory \<rparr>
          (Num 70) (Num 0)), bootstrappedService)"
    using analyzeTransaction_returns [OF d _ p, of 1 bootstrappedService majority_rf] c b
    by simp
  have none: "userClassifiers rejectedService 1 = None" by (simp add: rejectedService_eq)
  have tr: "RandomForestClassifier_train rejecting_rf groceryHistory
      (map isFlagged groceryHistory) (new_RandomForestClassifier 1)
     = (Inl (TypeError ''Input data contains non-numeric values''),
        \<lparr> model_rf = Some unusableForest, userId_rf = 1 \<rparr>)"
    by (simp add: RandomForestClassifier_train_def rejecting_rf_def groceryHistory_not_Nil
        new_RandomForestClassifier_def)
  have rejected: "analyzeTransaction rejecting_rf rejectedService technologyPurchase 1
      groceryHistory
     = (Inl (TypeError ''Input data contains non-numeric values''), rejectedService)"
    by (rule analyzeTransaction_throws(2) [OF d' none tr])
  show ?thesis
    unfolding rejected run
    by (simp add: assessment_def combinedScore_def Let_def floor_rat_numeral)
qed

section \<open>Training on an empty list\<close>

text \<open>
  C5 at the failing input. Training a classifier on an empty list changes nothing, and a
  fresh classifier still predicts 0 afterwards, as the claim says. Training the anomaly
  detector on an empty list is not answered with an error that names the degenerate
  training set: it stops at the \<open>TypeError\<close> of reading the length of the first row of an
  empty matrix, before anything is assigned, so a new detector is still untrained.
\<close>

theorem empty_training:
  "RandomForestClassifier_train rf [] labels c = (Inr (), c) \<and>
   RandomForestClassifier_predict
     (snd (RandomForestClassifier_train rf [] labels (new_RandomForestClassifier userId))) t h
     = Inr (Num 0) \<and>
   AnomalyDetector_train fit [] d = (Inl (TypeError ''Cannot read properties of undefined''), d) \<and>
   detectAnomaly (snd (AnomalyDetector_train fit [] new_AnomalyDetector)) t h
     = Inl (Error ''Model not trained'')"
  by (simp add: RandomForestClassifier_train_def RandomForestClassifier_predict_def
      new_RandomForestClassifier_def AnomalyDetector_train_def featureMatrix_def
      detectAnomaly_def new_AnomalyDetector_def)

section \<open>Score ranges\<close>

text \<open>The behavioral score is always an integer of the range. The anomaly score of a
  detector trained on any list is \<open>NaN\<close>, for every transaction and history; on an
  empty history it is \<open>NaN\<close> whatever the threshold.\<close>

lemma behavioral_score_is_score:
  "is_score (BehavioralProfiler_analyzeTransaction userProfiles userId t)"
  by (cases "userProfiles userId")
    (simp_all add: BehavioralProfiler_analyzeTransaction_def Let_def is_score_def)

lemma trained_detector_score_NaN:
  assumes "transactions \<noteq> []"
  shows "detectAnomaly (snd (AnomalyDetector_train fit transactions d)) t h
    = Inr \<lparr> score = NaN, isAnomaly_d = False, features_d = extractTransactionFeatures t h \<rparr>"
  by (rule detectAnomaly_threshold_NaN) (simp_all add: train_threshold_NaN [OF assms])

lemma detectAnomaly_empty_history_NaN:
  assumes "model d = Some m"
  shows "detectAnomaly d t []
    = Inr \<lparr> score = NaN, isAnomaly_d = False, features_d = extractTransactionFeatures t [] \<rparr>"
proof -
  have "meanSquaredError [Object_values (extractTransactionFeatures t [])]
      (map m [Object_values (extractTransactionFeatures t [])]) = NaN"
    by (rule meanSquaredError_NaN [OF _ features_empty_history_NaN]) simp
  then show ?thesis using assms by (simp add: detectAnomaly_def Let_def)
qed

text \<open>
  C2 at a failing input. The detector is trained on the ten grocery purchases and asked
  about an eleventh, ordinary one with those ten as its history, and about a first purchase
  with no history: the anomaly score is \<open>NaN\<close> both times, and so is the suspicion score
  of the bootstrapped service; \<open>NaN\<close> is no integer between 0 and 100.
\<close>

theorem trained_scores_not_numbers:
  "detectAnomaly (snd (AnomalyDetector_train echo_fit groceryHistory new_AnomalyDetector))
     (groceryPurchase 10 50) groceryHistory
     = Inr \<lparr> score = NaN, isAnomaly_d = False,
             features_d = extractTransactionFeatures (groceryPurchase 10 50) groceryHistory \<rparr> \<and>
   detectAnomaly (snd (AnomalyDetector_train echo_fit groceryHistory new_AnomalyDetector))
     pharmacyPurchase []
     = Inr \<lparr> score = NaN, isAnomaly_d = False,
             features_d = extractTransactionFeatures pharmacyPurchase [] \<rparr> \<and>
   fst (analyzeTransaction majority_rf bootstrappedService (groceryPurchase 10 50) 1
          groceryHistory)
     = Inr \<lparr> suspiciousScore = NaN, isAnomaly = False, anomalyScore = NaN,
             behavioralScore = Num 0, classifierScore = Num 0,
             features = extractTransactionFeatures (groceryPurchase 10 50) groceryHistory \<rparr> \<and>
   is_score NaN = False"
proof -
  have g: "groceryHistory \<noteq> []" by (simp add: groceryHistory_def)
  have d: "detectAnomaly (anomalyDetector bootstrappedService) (groceryPurchase 10 50)
      groceryHistory
     = Inr \<lparr> score = NaN, isAnomaly_d = False,
             features_d = extractTransactionFeatures (groceryPurchase 10 50) groceryHistory \<rparr>"
    by (rule detectAnomaly_threshold_NaN) (simp_all add: bootstrappedService_eq)
  have b: "BehavioralProfiler_analyzeTransaction (behavioralProfiler bootstrappedService) 1
      (groceryPurchase 10 50) = Num 0"
    by (simp add: behavioral_score_cases [of _ 1 groceryProfile] bootstrappedService_eq
        groceryPurchase_def groceryProfile_def getHours_def absAmount_def)
  have c: "userClassifiers bootstrappedService 1
      = Some \<lparr> model_rf = Some neverFraud, userId_rf = 1 \<rparr>"
    by (simp add: bootstrappedService_eq)
  have run: "fst (analyzeTransaction majority_rf bootstrappedService (groceryPurchase 10 50) 1
          groceryHistory)
     = Inr \<lparr> suspiciousScore = NaN, isAnomaly = False, anomalyScore = NaN,
             behavioralScore = Num 0, classifierScore = Num 0,
             features = extractTransactionFeatures (groceryPurchase 10 50) groceryHistory \<rparr>"
    unfolding analyzeTransaction_def d b c
    by (simp add: RandomForestClassifier_predict_def neverFraud_def combinedScore_def
        assessment_def Let_def)
  show ?thesis
    by (simp add: trained_detector_score_NaN [OF g] run is_score_def)
qed

section \<open>Amount ratios\<close>

text \<open>For a transaction whose amount is not 0 the two ratios are finite, and 1 without
  history of the merchant or the category.\<close>

lemma foldl_js_add_Num:
  "foldl js_add (Num a) (map absAmount ts) = Num (a + (\<Sum>t\<leftarrow>ts. \<bar>amount t\<bar>))"
  by (induction ts arbitrary: a) (simp_all add: absAmount_def add.assoc)

lemma js_sum_absAmount: "js_sum (map absAmount ts) = Num (\<Sum>t\<leftarrow>ts. \<bar>amount t\<bar>)"
  by (simp add: js_sum_def foldl_js_add_Num)

lemma avgAmount_finite: "\<exists>a. avgAmount ts = Num a"
proof (cases "ts = []")
  case True
  then show ?thesis by (simp add: avgAmount_def)
next
  case False
  then have "(of_nat (length ts) :: rat) \<noteq> 0" by simp
  then show ?thesis
    using False by (simp add: avgAmount_def js_sum_absAmount js_length_def)
qed

lemma ratio_nonzero_amount:
  assumes "amount t \<noteq> 0"
  shows "is_finite (js_div (absAmount t) (js_or (avgAmount ts) (absAmount t)))"
    and "ts = [] \<Longrightarrow> js_div (absAmount t) (js_or (avgAmount ts) (absAmount t)) = Num 1"
proof -
  obtain a where a: "avgAmount ts = Num a" using avgAmount_finite by blast
  show "is_finite (js_div (absAmount t) (js_or (avgAmount ts) (absAmount t)))"
    using assms by (simp add: a js_or_def absAmount_def)
  show "js_div (absAmount t) (js_or (avgAmount ts) (absAmount t)) = Num 1" if "ts = []"
    using assms that by (simp add: avgAmount_def js_or_def absAmount_def)
qed

lemma amount_ratios_nonzero_amount:
  assumes "amount t \<noteq> 0"
  shows "is_finite (amountVsMerchantAvg (extractTransactionFeatures t h)) \<and>
         is_finite (amountVsCategoryAvg (extractTransactionFeatures t h)) \<and>
         (filter (\<lambda>x. merchant x = merchant t) h = [] \<longrightarrow>
            amountVsMerchantAvg (extractTransactionFeatures t h) = Num 1) \<and>
         (filter (\<lambda>x. category x = category t) h = [] \<longrightarrow>
            amountVsCategoryAvg (extractTransactionFeatures t h) = Num 1)"
  using ratio_nonzero_amount [OF assms]
  by (simp add: extractTransactionFeatures_def Let_def)

text \<open>
  C4 at a failing input. For a transaction of amount 0 at a merchant and in a category
  without history, the fallback denominator is the amount itself, 0, and both ratios are
  \<open>0 / 0\<close>: \<open>NaN\<close>, which is neither finite nor 1.
\<close>

theorem zero_amount_ratios_NaN:
  "amountVsMerchantAvg (extractTransactionFeatures (technologyPurchase\<lparr>amount := 0\<rparr>)
      groceryHistory) = NaN \<and>
   amountVsCategoryAvg (extractTransactionFeatures (technologyPurchase\<lparr>amount := 0\<rparr>)
      groceryHistory) = NaN \<and>
   amountVsMerchantAvg (extractTransactionFeatures (technologyPurchase\<lparr>amount := 0\<rparr>) [])
      = NaN \<and>
   is_finite NaN = False"
  by (simp add: extractTransactionFeatures_def Let_def technologyPurchase_def
      groceryHistory_def groceryPurchase_def avgAmount_def js_or_def absAmount_def
      signed_inf_def)

section \<open>Stored profiles\<close>

text \<open>Every profile that \<open>updateProfile\<close> stores has a finite average that is not
  negative, as the theorem on the unusual amount supposes.\<close>

lemma sum_abs_amounts_nonneg: "0 \<le> (\<Sum>t\<leftarrow>ts. \<bar>amount t\<bar>)"
  by (induction ts) simp_all

lemma updateProfile_average_finite:
  assumes "updateProfile userProfiles userId transactions = (Inr (), userProfiles')"
  shows "\<exists>p avg. userProfiles' userId = Some p \<and> averageAmount p = Num avg \<and> 0 \<le> avg"
proof (cases transactions)
  case Nil
  with assms show ?thesis by (simp add: updateProfile_def)
next
  case (Cons first rest)
  have n: "(of_nat (length transactions) :: rat) > 0" using Cons by simp
  have avg: "js_div (js_sum (map absAmount transactions)) (js_length transactions)
      = Num ((\<Sum>t\<leftarrow>transactions. \<bar>amount t\<bar>) / of_nat (length transactions))"
    using n by (simp add: js_sum_absAmount js_length_def)
  have "0 \<le> (\<Sum>t\<leftarrow>transactions. \<bar>amount t\<bar>) / of_nat (length transactions)"
    using n sum_abs_amounts_nonneg [of transactions] by simp
  moreover have "\<exists>p. userProfiles' userId = Some p \<and> averageAmount p
      = js_div (js_sum (map absAmount transactions)) (js_length transactions)"
    using assms unfolding updateProfile_def Let_def Cons [symmetric]
    by (auto simp: Cons)
  ultimately show ?thesis unfolding avg by blast
qed

end
